theory Spec2Isabelle
  imports Complex_Main "HOL-Library.Word"
begin

section \<open>Python values used by \<open>main.py\<close>\<close>

text \<open>
  Prices, totals and the readings of \<open>time.time()\<close> are Python numbers. Every finite
  Python number is a rational, so they are modelled as \<^typ>\<open>rat\<close>; the rounding of
  floating-point addition is not modelled. Every method that reads the clock takes the
  reading as its argument \<open>now\<close>: the calls of \<open>time.time()\<close> inside one method call
  are taken to return the same reading.
\<close>

type_synonym number = rat

datatype py_error = KeyError

text \<open>\<open>xs[i:]\<close>: a negative start counts from the end and is clamped at the front.\<close>

definition py_slice_from :: "'a list \<Rightarrow> int \<Rightarrow> 'a list" where
  "py_slice_from xs i =
     (if i < 0 then drop (nat (max 0 (int (length xs) + i))) xs else drop (nat i) xs)"

text \<open>\<open>sum(...)\<close>: a left fold that starts at \<open>0\<close>.\<close>

definition py_sum :: "number list \<Rightarrow> number" where
  "py_sum xs = foldl (+) 0 xs"

text \<open>\<open>xs.pop(i)\<close> for an index already checked to be in range: the item and the rest.\<close>

definition py_pop :: "'a list \<Rightarrow> nat \<Rightarrow> 'a \<times> 'a list" where
  "py_pop xs i = (xs ! i, take i xs @ drop (Suc i) xs)"

section \<open>ConversationMemory: the data\<close>

record message =
  role :: string
  content :: string
  timestamp :: number

text \<open>
  An order item is a dictionary of which the code reads only the key \<open>price\<close>, with
  \<open>item.get('price', 0)\<close>: the key may be absent, which is \<open>None\<close> here. The values
  have the types that the examples give them: a price that is present is a number.
\<close>

record order_item =
  item_name :: string
  item_size :: "string option"
  item_price :: "number option"
  item_quantity :: "int option"
  item_special_instructions :: "string option"

text \<open>
  The dictionary \<open>order_context\<close> is created by \<open>add_message\<close> with its eight keys and
  no method removes a key, so the defaults of \<open>.get('order_context', {})\<close> and
  \<open>.get('current_order', [])\<close> are never taken and the dictionary is a record.
\<close>

record order_context =
  customer_name :: "string option"
  phone_number :: "string option"
  delivery_address :: "string option"
  current_order :: "order_item list"
  order_total :: number
  payment_method :: "string option"
  delivery_preference :: "string option"
  special_instructions :: "string option"

text \<open>
  The argument \<open>updates\<close> of \<open>update_order_context\<close> is a dictionary: the list of its
  items, each a key of the order context with its new value. Keys outside the eight are
  stored by the source and read by no method; they are left out.
\<close>

datatype order_field =
    Customer_name "string option"
  | Phone_number "string option"
  | Delivery_address "string option"
  | Current_order "order_item list"
  | Order_total number
  | Payment_method "string option"
  | Delivery_preference "string option"
  | Special_instructions "string option"

record conversation =
  messages :: "message list"
  created_at :: number
  last_activity :: number
  metadata :: "(string \<times> string) list"
  order_context :: order_context

record conversation_memory =
  conversations :: "string \<rightharpoonup> conversation"
  max_conversations :: int
  max_messages_per_conversation :: int
  last_cleanup :: number
  cleanup_interval :: number

record session_summary =
  summary_session_id :: string
  summary_created_at :: number
  summary_last_activity :: number
  summary_message_count :: nat
  summary_order_context :: order_context
  summary_metadata :: "(string \<times> string) list"

section \<open>ConversationMemory: the methods\<close>

definition ConversationMemory_init :: "number \<Rightarrow> int \<Rightarrow> int \<Rightarrow> conversation_memory" where
  "ConversationMemory_init now max_convs max_msgs =
     \<lparr>conversations = Map.empty,
      max_conversations = max_convs,
      max_messages_per_conversation = max_msgs,
      last_cleanup = now,
      cleanup_interval = 3600\<rparr>"

definition new_order_context :: order_context where
  "new_order_context =
     \<lparr>customer_name = None, phone_number = None, delivery_address = None,
      current_order = [], order_total = 0, payment_method = None,
      delivery_preference = None, special_instructions = None\<rparr>"

definition new_conversation :: "number \<Rightarrow> (string \<times> string) list option \<Rightarrow> conversation" where
  "new_conversation now md =
     \<lparr>messages = [], created_at = now, last_activity = now,
      metadata = (case md of None \<Rightarrow> [] | Some m \<Rightarrow> m),
      order_context = new_order_context\<rparr>"

definition cleanup_old_conversations :: "conversation_memory \<Rightarrow> number \<Rightarrow> conversation_memory" where
  "cleanup_old_conversations self now =
     (let current_time = now in
      if current_time - last_cleanup self < cleanup_interval self then self
      else
        let cutoff_time = current_time - 24 * 3600 in
        self\<lparr>last_cleanup := current_time,
             conversations :=
               (\<lambda>session_id.
                  case conversations self session_id of
                    None \<Rightarrow> None
                  | Some conv \<Rightarrow>
                      if last_activity conv < cutoff_time then None else Some conv)\<rparr>)"

definition add_message ::
  "conversation_memory \<Rightarrow> number \<Rightarrow> string \<Rightarrow> string \<Rightarrow> string \<Rightarrow>
   (string \<times> string) list option \<Rightarrow> conversation_memory" where
  "add_message self now session_id r c md =
     (let conv = (case conversations self session_id of
                    None \<Rightarrow> new_conversation now md
                  | Some cv \<Rightarrow> cv);
          msg = \<lparr>role = r, content = c, timestamp = now\<rparr>;
          appended = messages conv @ [msg];
          limited =
            (if int (length appended) > max_messages_per_conversation self
             then py_slice_from appended (- max_messages_per_conversation self)
             else appended);
          conv' = conv\<lparr>last_activity := now, messages := limited\<rparr>
      in cleanup_old_conversations
           (self\<lparr>conversations := (conversations self)(session_id \<mapsto> conv')\<rparr>) now)"

definition get_conversation ::
  "conversation_memory \<Rightarrow> number \<Rightarrow> string \<Rightarrow> message list \<times> conversation_memory" where
  "get_conversation self now session_id =
     (case conversations self session_id of
        Some conv \<Rightarrow>
          (messages conv,
           self\<lparr>conversations :=
                  (conversations self)(session_id \<mapsto> conv\<lparr>last_activity := now\<rparr>)\<rparr>)
      | None \<Rightarrow> ([], self))"

text \<open>The empty dictionary returned for an unknown session is \<open>None\<close>.\<close>

definition get_order_context ::
  "conversation_memory \<Rightarrow> string \<Rightarrow> order_context option \<times> conversation_memory" where
  "get_order_context self session_id =
     (case conversations self session_id of
        Some conv \<Rightarrow> (Some (order_context conv), self)
      | None \<Rightarrow> (None, self))"

fun set_field :: "order_context \<Rightarrow> order_field \<Rightarrow> order_context" where
  "set_field ctx (Customer_name v) = ctx\<lparr>customer_name := v\<rparr>"
| "set_field ctx (Phone_number v) = ctx\<lparr>phone_number := v\<rparr>"
| "set_field ctx (Delivery_address v) = ctx\<lparr>delivery_address := v\<rparr>"
| "set_field ctx (Current_order v) = ctx\<lparr>current_order := v\<rparr>"
| "set_field ctx (Order_total v) = ctx\<lparr>order_total := v\<rparr>"
| "set_field ctx (Payment_method v) = ctx\<lparr>payment_method := v\<rparr>"
| "set_field ctx (Delivery_preference v) = ctx\<lparr>delivery_preference := v\<rparr>"
| "set_field ctx (Special_instructions v) = ctx\<lparr>special_instructions := v\<rparr>"

text \<open>\<open>order_context.update(updates)\<close>.\<close>

definition dict_update :: "order_context \<Rightarrow> order_field list \<Rightarrow> order_context" where
  "dict_update ctx updates = foldl set_field ctx updates"

definition update_order_context ::
  "conversation_memory \<Rightarrow> number \<Rightarrow> string \<Rightarrow> order_field list \<Rightarrow> conversation_memory" where
  "update_order_context self now session_id updates =
     (case conversations self session_id of
        Some conv \<Rightarrow>
          self\<lparr>conversations :=
                 (conversations self)(session_id \<mapsto>
                    conv\<lparr>order_context := dict_update (order_context conv) updates,
                         last_activity := now\<rparr>)\<rparr>
      | None \<Rightarrow> self)"

text \<open>\<open>sum(item.get('price', 0) for item in current_order)\<close>.\<close>

definition price_of :: "order_item \<Rightarrow> number" where
  "price_of item = (case item_price item of None \<Rightarrow> 0 | Some p \<Rightarrow> p)"

definition sum_prices :: "order_item list \<Rightarrow> number" where
  "sum_prices items = py_sum (map price_of items)"

definition add_to_order ::
  "conversation_memory \<Rightarrow> number \<Rightarrow> string \<Rightarrow> order_item \<Rightarrow> conversation_memory" where
  "add_to_order self now session_id item =
     (case conversations self session_id of
        Some conv \<Rightarrow>
          (let ctx = order_context conv;
               items = current_order ctx @ [item];
               ctx' = ctx\<lparr>current_order := items, order_total := sum_prices items\<rparr>
           in self\<lparr>conversations :=
                     (conversations self)(session_id \<mapsto>
                        conv\<lparr>order_context := ctx', last_activity := now\<rparr>)\<rparr>)
      | None \<Rightarrow> self)"

text \<open>The method returns the removed item, or \<open>None\<close> on both of its other paths.\<close>

definition remove_from_order ::
  "conversation_memory \<Rightarrow> number \<Rightarrow> string \<Rightarrow> int \<Rightarrow> order_item option \<times> conversation_memory" where
  "remove_from_order self now session_id item_index =
     (case conversations self session_id of
        Some conv \<Rightarrow>
          (let ctx = order_context conv in
           if 0 \<le> item_index \<and> item_index < int (length (current_order ctx)) then
             (let (removed_item, items) = py_pop (current_order ctx) (nat item_index);
                  ctx' = ctx\<lparr>current_order := items, order_total := sum_prices items\<rparr>
              in (Some removed_item,
                  self\<lparr>conversations :=
                         (conversations self)(session_id \<mapsto>
                            conv\<lparr>order_context := ctx', last_activity := now\<rparr>)\<rparr>))
           else (None, self))
      | None \<Rightarrow> (None, self))"


definition get_session_summary ::
  "conversation_memory \<Rightarrow> string \<Rightarrow> session_summary option \<times> conversation_memory" where
  "get_session_summary self session_id =
     (case conversations self session_id of
        Some conv \<Rightarrow>
          (Some \<lparr>summary_session_id = session_id,
                 summary_created_at = created_at conv,
                 summary_last_activity = last_activity conv,
                 summary_message_count = length (messages conv),
                 summary_order_context = order_context conv,
                 summary_metadata = metadata conv\<rparr>,
           self)
      | None \<Rightarrow> (None, self))"

definition clear_conversation :: "conversation_memory \<Rightarrow> string \<Rightarrow> conversation_memory" where
  "clear_conversation self session_id =
     (case conversations self session_id of
        Some conv \<Rightarrow> self\<lparr>conversations := (conversations self)(session_id := None)\<rparr>
      | None \<Rightarrow> self)"

section \<open>Inputs of the example scripts\<close>

text \<open>
  The module creates its store as \<open>ConversationMemory()\<close>: a thousand conversations,
  fifty messages each. The items are those of \<open>example_order_context.py\<close>.
\<close>

definition fresh_memory :: conversation_memory where
  "fresh_memory = ConversationMemory_init 0 1000 50"

definition margherita :: order_item where
  "margherita =
     \<lparr>item_name = ''Margherita Pizza'', item_size = None, item_price = Some 800,
      item_quantity = Some 1, item_special_instructions = None\<rparr>"

definition pizza_item :: order_item where
  "pizza_item =
     \<lparr>item_name = ''Peri Peri Pizza'', item_size = Some ''Large'', item_price = Some 1200,
      item_quantity = Some 1, item_special_instructions = Some ''Extra spicy''\<rparr>"

definition wings_item :: order_item where
  "wings_item =
     \<lparr>item_name = ''BBQ Wings'', item_size = Some ''Regular (6 pieces)'',
      item_price = Some 450, item_quantity = Some 1,
      item_special_instructions = Some ''Extra BBQ sauce''\<rparr>"


text \<open>The store after the first message of session \<open>s1\<close>, and after two items.\<close>

definition started_memory :: conversation_memory where
  "started_memory = add_message fresh_memory 1 ''s1'' ''user'' ''hi'' None"

definition ordered_memory :: conversation_memory where
  "ordered_memory =
     add_to_order (add_to_order started_memory 2 ''s1'' pizza_item) 3 ''s1'' wings_item"


section \<open>Sequences of calls on the order\<close>





section \<open>Sequences of appended messages\<close>

text \<open>The last \<open>n\<close> elements of a list, and the message that one append stores.\<close>

definition lastn :: "nat \<Rightarrow> 'a list \<Rightarrow> 'a list" where
  "lastn n xs = drop (length xs - n) xs"

definition mk_message :: "number \<times> string \<times> string \<Rightarrow> message" where
  "mk_message a = (case a of (now, r, c) \<Rightarrow> \<lparr>role = r, content = c, timestamp = now\<rparr>)"

fun add_messages ::
  "conversation_memory \<Rightarrow> string \<Rightarrow> (number \<times> string \<times> string) list \<Rightarrow> conversation_memory" where
  "add_messages self session_id [] = self"
| "add_messages self session_id ((now, r, c) # appends) =
     add_messages (add_message self now session_id r c None) session_id appends"

definition history :: "conversation_memory \<Rightarrow> string \<Rightarrow> message list" where
  "history self session_id =
     (case conversations self session_id of None \<Rightarrow> [] | Some conv \<Rightarrow> messages conv)"

text \<open>A store constructed with \<open>max_messages_per_conversation=0\<close>.\<close>

definition zero_limit_memory :: conversation_memory where
  "zero_limit_memory = ConversationMemory_init 0 1000 0"

section \<open>ResponseCache: the data\<close>

text \<open>
  \<open>hashlib.md5(...).hexdigest()\<close> and the formatting of a float in an f-string are
  functions of the Python library, not of the repository: the methods take them as the
  parameter \<open>lib\<close>. A string is the sequence of bytes that \<open>.encode()\<close> yields.
\<close>

record py_lib =
  md5_hexdigest :: "string \<Rightarrow> string"
  float_str :: "number \<Rightarrow> string"

record cached_item =
  response :: string
  timestamp :: number

text \<open>
  The \<open>OrderedDict\<close> is the list of its items in their order, the first item being the
  oldest and the last the most recently used; its keys are distinct.
\<close>

record response_cache =
  cache :: "(string \<times> cached_item) list"
  max_size :: int
  ttl :: number

definition ResponseCache_init :: "int \<Rightarrow> number \<Rightarrow> response_cache" where
  "ResponseCache_init capacity seconds = \<lparr>cache = [], max_size = capacity, ttl = seconds\<rparr>"

section \<open>OrderedDict\<close>

text \<open>\<open>key in d\<close>, \<open>d[key]\<close>, \<open>del d[key]\<close>, \<open>d.move_to_end(key)\<close>, \<open>d[key] = v\<close> and
  \<open>d.popitem(last=False)\<close>; four of them raise \<open>KeyError\<close>.\<close>

definition od_contains :: "('k \<times> 'v) list \<Rightarrow> 'k \<Rightarrow> bool" where
  "od_contains d k = (map_of d k \<noteq> None)"

definition od_getitem :: "('k \<times> 'v) list \<Rightarrow> 'k \<Rightarrow> py_error + 'v" where
  "od_getitem d k = (case map_of d k of None \<Rightarrow> Inl KeyError | Some v \<Rightarrow> Inr v)"

definition od_delitem :: "('k \<times> 'v) list \<Rightarrow> 'k \<Rightarrow> py_error + ('k \<times> 'v) list" where
  "od_delitem d k =
     (if od_contains d k then Inr (filter (\<lambda>e. fst e \<noteq> k) d) else Inl KeyError)"

definition od_move_to_end :: "('k \<times> 'v) list \<Rightarrow> 'k \<Rightarrow> py_error + ('k \<times> 'v) list" where
  "od_move_to_end d k =
     (case map_of d k of
        None \<Rightarrow> Inl KeyError
      | Some v \<Rightarrow> Inr (filter (\<lambda>e. fst e \<noteq> k) d @ [(k, v)]))"

definition od_setitem :: "('k \<times> 'v) list \<Rightarrow> 'k \<Rightarrow> 'v \<Rightarrow> ('k \<times> 'v) list" where
  "od_setitem d k v =
     (if od_contains d k then map (\<lambda>e. if fst e = k then (k, v) else e) d else d @ [(k, v)])"

definition od_popitem_first :: "('k \<times> 'v) list \<Rightarrow> py_error + (('k \<times> 'v) \<times> ('k \<times> 'v) list)" where
  "od_popitem_first d = (case d of [] \<Rightarrow> Inl KeyError | e # rest \<Rightarrow> Inr (e, rest))"

section \<open>ResponseCache: the methods\<close>

text \<open>\<open>str(n)\<close> of an integer, which is what an f-string writes for it.\<close>

function digits :: "nat \<Rightarrow> string" where
  "digits n =
     (if n < 10 then [''0123456789'' ! n]
      else digits (n div 10) @ [''0123456789'' ! (n mod 10)])"
  by pat_completeness auto
termination
  by (relation "measure id") auto

declare digits.simps [simp del]

definition int_str :: "int \<Rightarrow> string" where
  "int_str i = (if i < 0 then CHR ''-'' # digits (nat (- i)) else digits (nat i))"

definition key_data :: "py_lib \<Rightarrow> string \<Rightarrow> string \<Rightarrow> int \<Rightarrow> number \<Rightarrow> string" where
  "key_data lib prompt model max_tokens temperature =
     prompt @ '':'' @ model @ '':'' @ int_str max_tokens @ '':'' @ float_str lib temperature"

definition generate_key :: "py_lib \<Rightarrow> string \<Rightarrow> string \<Rightarrow> int \<Rightarrow> number \<Rightarrow> string" where
  "generate_key lib prompt model max_tokens temperature =
     md5_hexdigest lib (key_data lib prompt model max_tokens temperature)"

text \<open>The body of \<open>get\<close> once the key is computed: the result and the cache after it.\<close>

definition get_entry ::
  "response_cache \<Rightarrow> number \<Rightarrow> string \<Rightarrow> py_error + (string option \<times> response_cache)" where
  "get_entry self now key =
     (if od_contains (cache self) key then
        (case od_getitem (cache self) key of
           Inl e \<Rightarrow> Inl e
         | Inr item \<Rightarrow>
             if now - cached_item.timestamp item < ttl self then
               (case od_move_to_end (cache self) key of
                  Inl e \<Rightarrow> Inl e
                | Inr d \<Rightarrow> Inr (Some (response item), self\<lparr>cache := d\<rparr>))
             else
               (case od_delitem (cache self) key of
                  Inl e \<Rightarrow> Inl e
                | Inr d \<Rightarrow> Inr (None, self\<lparr>cache := d\<rparr>)))
      else Inr (None, self))"

definition ResponseCache_get ::
  "py_lib \<Rightarrow> response_cache \<Rightarrow> number \<Rightarrow> string \<Rightarrow> string \<Rightarrow> int \<Rightarrow> number \<Rightarrow>
   py_error + (string option \<times> response_cache)" where
  "ResponseCache_get lib self now prompt model max_tokens temperature =
     get_entry self now (generate_key lib prompt model max_tokens temperature)"

text \<open>The body of \<open>set\<close> once the key is computed.\<close>

definition set_entry ::
  "response_cache \<Rightarrow> number \<Rightarrow> string \<Rightarrow> string \<Rightarrow> py_error + response_cache" where
  "set_entry self now key resp =
     (case (if od_contains (cache self) key then od_delitem (cache self) key
            else Inr (cache self)) of
        Inl e \<Rightarrow> Inl e
      | Inr d \<Rightarrow>
          (let d' = od_setitem d key \<lparr>response = resp, timestamp = now\<rparr> in
           if int (length d') > max_size self then
             (case od_popitem_first d' of
                Inl e \<Rightarrow> Inl e
              | Inr (oldest, d'') \<Rightarrow> Inr (self\<lparr>cache := d''\<rparr>))
           else Inr (self\<lparr>cache := d'\<rparr>)))"

definition ResponseCache_set ::
  "py_lib \<Rightarrow> response_cache \<Rightarrow> number \<Rightarrow> string \<Rightarrow> string \<Rightarrow> int \<Rightarrow> number \<Rightarrow> string \<Rightarrow>
   py_error + response_cache" where
  "ResponseCache_set lib self now prompt model max_tokens temperature resp =
     set_entry self now (generate_key lib prompt model max_tokens temperature) resp"

section \<open>Sequences of calls on the cache\<close>

datatype cache_call = Get string | Set string string

fun run_cache_calls ::
  "response_cache \<Rightarrow> (number \<times> cache_call) list \<Rightarrow> py_error + response_cache" where
  "run_cache_calls self [] = Inr self"
| "run_cache_calls self ((now, Get key) # calls) =
     (case get_entry self now key of
        Inl e \<Rightarrow> Inl e
      | Inr (r, self') \<Rightarrow> run_cache_calls self' calls)"
| "run_cache_calls self ((now, Set key resp) # calls) =
     (case set_entry self now key resp of
        Inl e \<Rightarrow> Inl e
      | Inr self' \<Rightarrow> run_cache_calls self' calls)"

fun get_all :: "response_cache \<Rightarrow> (number \<times> string) list \<Rightarrow> py_error + response_cache" where
  "get_all self [] = Inr self"
| "get_all self ((now, key) # gets) =
     (case get_entry self now key of
        Inl e \<Rightarrow> Inl e
      | Inr (r, self') \<Rightarrow> get_all self' gets)"

text \<open>A cache of two entries with the default time to live, and the same cache holding
  the response \<open>R\<close> under the key \<open>k\<close> since the reading \<open>10\<close>.\<close>

definition small_cache :: response_cache where
  "small_cache = ResponseCache_init 2 3600"

definition r_cache :: response_cache where
  "r_cache = small_cache\<lparr>cache := [(''k'', \<lparr>response = ''R'', timestamp = 10\<rparr>)]\<rparr>"

section \<open>Writes to the order of an unknown session\<close>

lemma order_write_absent:
  assumes "conversations self session_id = None"
  shows "update_order_context self now session_id updates = self"
    and "add_to_order self now session_id item = self"
  using assms by (simp_all add: update_order_context_def add_to_order_def)

lemma add_message_creates:
  "conversations (add_message self now session_id r c md) session_id \<noteq> None"
  by (simp add: add_message_def cleanup_old_conversations_def Let_def)

text \<open>
  C2. The claim: for a session id that is not in the store, \<open>update_order_context\<close> and
  \<open>add_to_order\<close> create the session, as \<open>add_message\<close> does, and then apply the write.
  On the store the module starts with, the session \<open>s1\<close> is unknown; the update of
  \<open>example_order_context.py\<close> and the addition of its first item both return the store
  as it was, with no session \<open>s1\<close> in it, whereas \<open>add_message\<close> creates the session.
\<close>

theorem order_write_unknown_session_noop:
  "update_order_context fresh_memory 1 ''s1'' [Customer_name (Some ''Fatima Ali'')] = fresh_memory
   \<and> add_to_order fresh_memory 1 ''s1'' margherita = fresh_memory
   \<and> conversations fresh_memory ''s1'' = None
   \<and> conversations (add_message fresh_memory 1 ''s1'' ''user'' ''hi'' None) ''s1'' \<noteq> None"
  by (simp add: fresh_memory_def ConversationMemory_init_def update_order_context_def
      add_to_order_def add_message_creates)

section \<open>The order total\<close>

lemma py_sum_sum_list: "py_sum xs = sum_list xs"
proof -
  have "foldl (+) a xs = a + sum_list xs" for a :: number
    by (induction xs arbitrary: a) (simp_all add: add.assoc)
  from this [of 0] show ?thesis by (simp add: py_sum_def)
qed

lemma sum_prices_sum_list: "sum_prices items = sum_list (map price_of items)"
  by (simp add: sum_prices_def py_sum_sum_list)

lemma started_s1:
  "conversations started_memory ''s1'' =
     Some (new_conversation 1 None\<lparr>last_activity := 1,
        messages := [\<lparr>role = ''user'', content = ''hi'', timestamp = 1\<rparr>]\<rparr>)"
  by (simp add: started_memory_def fresh_memory_def ConversationMemory_init_def add_message_def
      cleanup_old_conversations_def Let_def py_slice_from_def new_conversation_def)

lemma ordered_s1:
  "conversations ordered_memory ''s1'' =
     Some (new_conversation 1 None\<lparr>last_activity := 3,
        messages := [\<lparr>role = ''user'', content = ''hi'', timestamp = 1\<rparr>],
        order_context := new_order_context\<lparr>current_order := [pizza_item, wings_item],
           order_total := 1650\<rparr>\<rparr>)"
  by (simp add: ordered_memory_def add_to_order_def started_s1 Let_def new_conversation_def
      new_order_context_def sum_prices_def py_sum_def price_of_def pizza_item_def wings_item_def)










section \<open>Removing an item\<close>

text \<open>
  C3, as amended. With the session present and \<open>0 \<le> i < len(current_order)\<close>,
  \<open>remove_from_order\<close> returns the item at \<open>i\<close>, stores the order without it and the
  total recomputed from what is left, and sets the last activity. With the session
  present and \<open>i\<close> out of that range, and with the session absent, it returns \<open>None\<close>,
  the same value on both paths, and the store is unchanged.
\<close>

theorem remove_from_order_outcomes:
  "(conversations self session_id = Some conv \<and> 0 \<le> i \<and>
      i < int (length (current_order (order_context conv))) \<longrightarrow>
      (let items = take (nat i) (current_order (order_context conv)) @
                   drop (Suc (nat i)) (current_order (order_context conv))
       in remove_from_order self now session_id i =
           (Some (current_order (order_context conv) ! nat i),
            self\<lparr>conversations := (conversations self)(session_id \<mapsto>
               conv\<lparr>order_context :=
                      (order_context conv)\<lparr>current_order := items,
                         order_total := sum_list (map price_of items)\<rparr>,
                    last_activity := now\<rparr>)\<rparr>)))
   \<and> (conversations self session_id = Some conv \<and>
        \<not> (0 \<le> i \<and> i < int (length (current_order (order_context conv)))) \<longrightarrow>
        remove_from_order self now session_id i = (None, self))
   \<and> (conversations self session_id = None \<longrightarrow>
        remove_from_order self now session_id i = (None, self))"
  by (auto simp: remove_from_order_def py_pop_def Let_def sum_prices_sum_list)

theorem remove_from_order_outcomes_witness:
  "fst (remove_from_order ordered_memory 4 ''s1'' 0) = Some pizza_item
   \<and> remove_from_order ordered_memory 4 ''s1'' 2 = (None, ordered_memory)
   \<and> remove_from_order ordered_memory 4 ''s1'' (- 1) = (None, ordered_memory)
   \<and> remove_from_order fresh_memory 4 ''s1'' 0 = (None, fresh_memory)"
proof -
  let ?cv = "new_conversation 1 None\<lparr>last_activity := 3,
        messages := [\<lparr>role = ''user'', content = ''hi'', timestamp = 1\<rparr>],
        order_context := new_order_context\<lparr>current_order := [pizza_item, wings_item],
           order_total := 1650\<rparr>\<rparr>"
  have absent: "conversations fresh_memory ''s1'' = None"
    by (simp add: fresh_memory_def ConversationMemory_init_def)
  have present: "conversations ordered_memory ''s1'' = Some ?cv"
    by (rule ordered_s1)
  have a: "fst (remove_from_order ordered_memory 4 ''s1'' 0) = Some pizza_item"
    using remove_from_order_outcomes [of ordered_memory "''s1''" ?cv 0 4] present
    by (simp add: Let_def)
  have b: "remove_from_order ordered_memory 4 ''s1'' 2 = (None, ordered_memory)"
    using remove_from_order_outcomes [of ordered_memory "''s1''" ?cv 2 4] present by simp
  have c: "remove_from_order ordered_memory 4 ''s1'' (- 1) = (None, ordered_memory)"
    using remove_from_order_outcomes [of ordered_memory "''s1''" ?cv "- 1" 4] present by simp
  have d: "remove_from_order fresh_memory 4 ''s1'' 0 = (None, fresh_memory)"
    using remove_from_order_outcomes [of fresh_memory "''s1''" ?cv 0 4] absent by simp
  from a b c d show ?thesis by simp
qed

text \<open>
  The claim as stated asks for two results that can be told apart. The call on the
  unknown session and the call with the index \<open>2\<close> on an order of two items return the
  same value.
\<close>

theorem remove_errors_same_counterexample:
  "fst (remove_from_order fresh_memory 4 ''s1'' 0) =
   fst (remove_from_order ordered_memory 4 ''s1'' 2)"
  by (simp add: remove_from_order_def ordered_s1 fresh_memory_def ConversationMemory_init_def
      Let_def)

section \<open>The bound on the history\<close>

lemma add_message_max [simp]:
  "max_messages_per_conversation (add_message self now sid r c md) =
   max_messages_per_conversation self"
  by (simp add: add_message_def cleanup_old_conversations_def Let_def)

lemma lastn_rev: "lastn n xs = rev (take n (rev xs))"
  by (simp add: lastn_def rev_take)

lemma lastn_append_lastn: "lastn n (lastn n xs @ ys) = lastn n (xs @ ys)"
  by (simp add: lastn_rev min_def)

lemma lastn_short: "n \<le> length ys \<Longrightarrow> lastn n (xs @ ys) = lastn n ys"
  by (simp add: lastn_def)

lemma trim_lastn:
  assumes "0 < m"
  shows "(if int (length xs) > m then py_slice_from xs (- m) else xs) = lastn (nat m) xs"
proof (cases "int (length xs) > m")
  case True
  have "nat (max 0 (int (length xs) + - m)) = length xs - nat m"
    using assms by arith
  with True assms show ?thesis by (simp add: py_slice_from_def lastn_def)
next
  case False
  then have "length xs - nat m = 0" by arith
  with False show ?thesis by (simp add: lastn_def)
qed

text \<open>
  The session that receives a message is never swept by the cleanup of the same call:
  its last activity is the reading the cutoff is computed from.
\<close>

lemma add_message_history:
  assumes "0 < max_messages_per_conversation self"
  shows "history (add_message self now sid r c md) sid =
         lastn (nat (max_messages_per_conversation self))
           (history self sid @ [\<lparr>role = r, content = c, timestamp = now\<rparr>])"
proof -
  let ?conv = "case conversations self sid of None \<Rightarrow> new_conversation now md | Some cv \<Rightarrow> cv"
  let ?app = "messages ?conv @ [\<lparr>role = r, content = c, timestamp = now\<rparr>]"
  have h: "messages ?conv = history self sid"
    by (simp add: history_def new_conversation_def split: option.splits)
  have "history (add_message self now sid r c md) sid =
        (if int (length ?app) > max_messages_per_conversation self
         then py_slice_from ?app (- max_messages_per_conversation self) else ?app)"
    by (simp add: history_def add_message_def cleanup_old_conversations_def Let_def)
  also have "\<dots> = lastn (nat (max_messages_per_conversation self)) ?app"
    by (rule trim_lastn [OF assms])
  finally show ?thesis by (simp only: h)
qed

lemma add_messages_history:
  assumes "0 < max_messages_per_conversation self" and "appends \<noteq> []"
  shows "history (add_messages self sid appends) sid =
         lastn (nat (max_messages_per_conversation self))
           (history self sid @ map mk_message appends)"
  using assms
proof (induction self sid appends rule: add_messages.induct)
  case (1 self sid)
  then show ?case by simp
next
  case (2 self sid now r c appends)
  let ?s1 = "add_message self now sid r c None"
  have m: "0 < max_messages_per_conversation ?s1" using "2.prems" by simp
  show ?case
  proof (cases "appends = []")
    case True
    with "2.prems" show ?thesis
      by (simp add: add_message_history mk_message_def)
  next
    case False
    from "2.IH" [OF m False] "2.prems" show ?thesis
      by (simp add: add_message_history mk_message_def lastn_append_lastn)
  qed
qed

text \<open>
  With a limit of at least one, the claim of C4 holds: after more appends than the limit,
  on a store in any state and at any clock readings, \<open>get_conversation\<close> returns the
  messages of the last appends, as many as the limit, in the order of the appends.
\<close>

lemma history_bound_positive_limit:
  assumes "0 < max_messages_per_conversation self"
    and "int (length appends) > max_messages_per_conversation self"
  shows "fst (get_conversation (add_messages self session_id appends) now session_id) =
         lastn (nat (max_messages_per_conversation self)) (map mk_message appends)"
proof -
  have g: "fst (get_conversation st now session_id) = history st session_id" for st
    by (simp add: get_conversation_def history_def split: option.splits)
  from assms have ne: "appends \<noteq> []" by auto
  from assms have le: "nat (max_messages_per_conversation self) \<le> length (map mk_message appends)"
    by simp
  show ?thesis
    by (simp only: g add_messages_history [OF assms(1) ne] lastn_short [OF le])
qed

text \<open>
  C4. The claim: after \<open>N\<close> appends with \<open>N\<close> above the limit, \<open>get_conversation\<close>
  returns exactly the last appended messages, as many as the limit. With the limit \<open>0\<close>
  one append is more than the limit and the claim gives the empty history; the slice
  \<open>messages[-0:]\<close> is the whole list, and \<open>get_conversation\<close> returns the message.
\<close>

theorem zero_limit_keeps_all:
  "fst (get_conversation (add_messages zero_limit_memory ''s1'' [(1, ''user'', ''hi'')]) 2 ''s1'') =
     [\<lparr>role = ''user'', content = ''hi'', timestamp = 1\<rparr>]
   \<and> int (length [(1 :: number, ''user'', ''hi'')]) > max_messages_per_conversation zero_limit_memory
   \<and> lastn (nat (max_messages_per_conversation zero_limit_memory))
         (map mk_message [(1, ''user'', ''hi'')]) = []"
  by (simp add: zero_limit_memory_def ConversationMemory_init_def add_message_def
      get_conversation_def cleanup_old_conversations_def Let_def py_slice_from_def
      new_conversation_def lastn_def)

section \<open>The sweep\<close>

lemma started_clock:
  "last_cleanup started_memory = 0" "cleanup_interval started_memory = 3600"
  by (simp_all add: started_memory_def fresh_memory_def ConversationMemory_init_def
      add_message_def cleanup_old_conversations_def Let_def)

text \<open>
  C8. A call of the sweep closer than \<open>cleanup_interval\<close> to the last sweep that ran (or
  to the construction of the store) returns the store as it is. Otherwise it records
  the reading and deletes exactly the sessions whose last activity is before the reading
  minus 24 hours. The interval is the hour that the constructor sets and the sweep
  keeps, and a sweep within the interval after one that ran does nothing. So a session
  last active at \<open>t0\<close> is still there after a sweep at \<open>t0 + 3600\<close>, whether that sweep
  runs or not, and is gone after a sweep at \<open>t0 + 90000\<close> that is not held back by the
  interval.
\<close>

theorem cleanup_old_conversations_sweep:
  "(now - last_cleanup self < cleanup_interval self \<longrightarrow>
      cleanup_old_conversations self now = self)
   \<and> (\<not> now - last_cleanup self < cleanup_interval self \<longrightarrow>
        last_cleanup (cleanup_old_conversations self now) = now \<and>
        conversations (cleanup_old_conversations self now) session_id =
          (case conversations self session_id of
             None \<Rightarrow> None
           | Some conv \<Rightarrow> if last_activity conv < now - 86400 then None else Some conv))
   \<and> cleanup_interval (ConversationMemory_init t max_convs max_msgs) = 3600
   \<and> cleanup_interval (cleanup_old_conversations self now) = cleanup_interval self
   \<and> (\<not> now - last_cleanup self < cleanup_interval self \<and>
        next_call - now < cleanup_interval self \<longrightarrow>
        cleanup_old_conversations (cleanup_old_conversations self now) next_call =
          cleanup_old_conversations self now)
   \<and> (conversations self session_id = Some conv \<and> last_activity conv = t0 \<longrightarrow>
        conversations (cleanup_old_conversations self (t0 + 3600)) session_id = Some conv)
   \<and> (conversations self session_id = Some conv \<and> last_activity conv = t0 \<and>
        \<not> (t0 + 90000) - last_cleanup self < cleanup_interval self \<longrightarrow>
        conversations (cleanup_old_conversations self (t0 + 90000)) session_id = None)"
  by (auto simp: cleanup_old_conversations_def ConversationMemory_init_def Let_def)

theorem cleanup_old_conversations_sweep_witness:
  "cleanup_old_conversations started_memory 3000 = started_memory
   \<and> last_cleanup (cleanup_old_conversations started_memory 3601) = 3601
   \<and> cleanup_old_conversations (cleanup_old_conversations started_memory 3601) 7000 =
       cleanup_old_conversations started_memory 3601
   \<and> conversations (cleanup_old_conversations started_memory 3601) ''s1'' =
       conversations started_memory ''s1''
   \<and> conversations (cleanup_old_conversations started_memory 90001) ''s1'' = None"
proof -
  let ?cv = "new_conversation 1 None\<lparr>last_activity := 1,
        messages := [\<lparr>role = ''user'', content = ''hi'', timestamp = 1\<rparr>]\<rparr>"
  note facts = started_s1 started_clock
  have a: "cleanup_old_conversations started_memory 3000 = started_memory"
    using cleanup_old_conversations_sweep [of 3000 started_memory "''s1''" 0 0 0 0 ?cv 1] facts
    by simp
  have b: "last_cleanup (cleanup_old_conversations started_memory 3601) = 3601
     \<and> cleanup_old_conversations (cleanup_old_conversations started_memory 3601) 7000 =
         cleanup_old_conversations started_memory 3601"
    using cleanup_old_conversations_sweep [of 3601 started_memory "''s1''" 0 0 0 7000 ?cv 1] facts
    by simp
  have c: "conversations (cleanup_old_conversations started_memory 3601) ''s1'' =
       conversations started_memory ''s1''"
    using cleanup_old_conversations_sweep [of 3601 started_memory "''s1''" 0 0 0 7000 ?cv 1] facts
    by simp
  have d: "conversations (cleanup_old_conversations started_memory 90001) ''s1'' = None"
    using cleanup_old_conversations_sweep [of 3601 started_memory "''s1''" 0 0 0 7000 ?cv 1] facts
    by simp
  from a b c d show ?thesis by simp
qed

section \<open>Reads and the last activity\<close>

text \<open>
  C10. \<open>get_order_context\<close> and \<open>get_session_summary\<close> return the store as it is, the
  last activity of every session included, whereas \<open>get_conversation\<close> on an existing
  session sets its last activity to the reading of the call and changes nothing else.
  A sweep after a read of the order context or of the summary therefore deletes what
  it would have deleted without the read.
\<close>

theorem reads_and_last_activity:
  "snd (get_order_context self session_id) = self
   \<and> snd (get_session_summary self session_id) = self
   \<and> (conversations self session_id = Some conv \<longrightarrow>
        get_conversation self now session_id =
          (messages conv,
           self\<lparr>conversations :=
                  (conversations self)(session_id \<mapsto> conv\<lparr>last_activity := now\<rparr>)\<rparr>))
   \<and> cleanup_old_conversations (snd (get_order_context self session_id)) later =
       cleanup_old_conversations self later
   \<and> cleanup_old_conversations (snd (get_session_summary self session_id)) later =
       cleanup_old_conversations self later"
  by (simp add: get_order_context_def get_session_summary_def get_conversation_def
      split: option.splits)

theorem reads_and_last_activity_witness:
  "conversations
     (cleanup_old_conversations (snd (get_order_context started_memory ''s1'')) 90000) ''s1'' = None
   \<and> conversations
       (cleanup_old_conversations (snd (get_session_summary started_memory ''s1'')) 90000) ''s1'' = None
   \<and> conversations
       (cleanup_old_conversations (snd (get_conversation started_memory 5000 ''s1'')) 90000) ''s1''
       \<noteq> None"
proof -
  let ?cv = "new_conversation 1 None\<lparr>last_activity := 1,
        messages := [\<lparr>role = ''user'', content = ''hi'', timestamp = 1\<rparr>]\<rparr>"
  have swept: "conversations (cleanup_old_conversations started_memory 90000) ''s1'' = None"
    by (simp add: cleanup_old_conversations_def started_s1 started_clock Let_def)
  from reads_and_last_activity [of started_memory "''s1''" ?cv 5000 90000] started_s1 swept
  show ?thesis
    by (simp add: cleanup_old_conversations_def started_clock Let_def)
qed

section \<open>The ordered dictionary of the cache\<close>

lemma int_str_examples: "int_str 80 = ''80''" "int_str (- 1205) = ''-1205''" "int_str 0 = ''0''"
  by (simp_all add: int_str_def digits.simps)

lemma map_of_filter_other: "k' \<noteq> k \<Longrightarrow> map_of (filter (\<lambda>e. fst e \<noteq> k) d) k' = map_of d k'"
  by (induction d) auto

lemma map_of_filter_same: "map_of (filter (\<lambda>e. fst e \<noteq> k) d) k = None"
  by (induction d) auto

lemma filter_absent: "map_of d k = None \<Longrightarrow> filter (\<lambda>e. fst e \<noteq> k) d = d"
  by (induction d) (auto split: if_splits)

text \<open>Neither method raises: each returns on the right, with the cache as a list.\<close>

lemma set_entry_eq:
  "set_entry self now key resp =
     Inr (self\<lparr>cache :=
            (let d = filter (\<lambda>e. fst e \<noteq> key) (cache self) @
                     [(key, \<lparr>response = resp, timestamp = now\<rparr>)]
             in if int (length d) > max_size self then tl d else d)\<rparr>)"
  by (cases "map_of (cache self) key")
     (auto simp: set_entry_def od_contains_def od_delitem_def od_setitem_def od_popitem_first_def
        Let_def map_of_filter_same filter_absent split: list.splits)

lemma get_entry_eq:
  "get_entry self now key =
     (case map_of (cache self) key of
        None \<Rightarrow> Inr (None, self)
      | Some item \<Rightarrow>
          if now - cached_item.timestamp item < ttl self
          then Inr (Some (response item),
                    self\<lparr>cache := filter (\<lambda>e. fst e \<noteq> key) (cache self) @ [(key, item)]\<rparr>)
          else Inr (None, self\<lparr>cache := filter (\<lambda>e. fst e \<noteq> key) (cache self)\<rparr>))"
  by (auto simp: get_entry_def od_contains_def od_getitem_def od_move_to_end_def od_delitem_def
      split: option.splits)


lemma get_entry_ttl:
  "get_entry self now key = Inr (r, self') \<Longrightarrow> ttl self' = ttl self \<and> max_size self' = max_size self"
  by (auto simp: get_entry_eq split: option.splits if_splits)

lemma get_entry_lookup:
  assumes "get_entry self now key = Inr (r, self')"
  shows "map_of (cache self') k = None \<or> map_of (cache self') k = map_of (cache self) k"
proof (cases "k = key")
  case True
  with assms show ?thesis
    by (auto simp: get_entry_eq map_of_filter_same map_add_def split: option.splits if_splits)
next
  case False
  with assms show ?thesis
    by (auto simp: get_entry_eq map_of_filter_other map_add_def split: option.splits if_splits)
qed

lemma get_entry_total: "\<exists>r self'. get_entry self now key = Inr (r, self')"
  by (auto simp: get_entry_eq split: option.splits)

lemma get_all_keeps:
  "\<exists>self'. get_all self gets = Inr self' \<and> ttl self' = ttl self \<and>
     (\<forall>k. map_of (cache self') k = None \<or> map_of (cache self') k = map_of (cache self) k)"
proof (induction gets arbitrary: self)
  case Nil
  then show ?case by simp
next
  case (Cons g gets)
  obtain now key where g: "g = (now, key)" by (cases g)
  from get_entry_total obtain r s1 where s1: "get_entry self now key = Inr (r, s1)" by blast
  from Cons.IH [of s1] obtain s2 where s2: "get_all s1 gets = Inr s2" "ttl s2 = ttl s1"
    "\<forall>k. map_of (cache s2) k = None \<or> map_of (cache s2) k = map_of (cache s1) k"
    by blast
  have "map_of (cache s2) k = None \<or> map_of (cache s2) k = map_of (cache self) k" for k
    using s2(3) get_entry_lookup [OF s1, of k] by metis
  with s1 s2 g get_entry_ttl [OF s1] show ?case by simp
qed

text \<open>The keys stay distinct, and a cache within its size stays within it.\<close>

lemma set_entry_invariant:
  assumes "set_entry self now key resp = Inr self'" and "distinct (map fst (cache self))"
  shows "distinct (map fst (cache self'))"
    and "0 \<le> max_size self \<Longrightarrow> int (length (cache self)) \<le> max_size self \<Longrightarrow>
         int (length (cache self')) \<le> max_size self'"
proof -
  let ?f = "filter (\<lambda>e. fst e \<noteq> key) (cache self)"
  let ?d = "?f @ [(key, \<lparr>response = resp, timestamp = now\<rparr>)]"
  have d: "distinct (map fst ?d)"
    using assms(2) by (auto simp: distinct_map_filter)
  have c: "cache self' = (if int (length ?d) > max_size self then tl ?d else ?d)"
    and m: "max_size self' = max_size self"
    using assms(1) by (auto simp: set_entry_eq Let_def)
  from d show "distinct (map fst (cache self'))"
    by (simp only: c) (auto simp: map_tl distinct_tl split: if_splits)
  assume a: "0 \<le> max_size self" "int (length (cache self)) \<le> max_size self"
  have "int (length ?f) \<le> int (length (cache self))" by simp
  with a have f: "int (length ?f) \<le> max_size self" by linarith
  show "int (length (cache self')) \<le> max_size self'"
  proof (cases "int (length ?d) > max_size self")
    case True
    then have "cache self' = tl ?d" by (simp only: c if_True)
    with f m show ?thesis by simp
  next
    case False
    then have "cache self' = ?d" by (simp only: c if_False)
    with False m show ?thesis by simp
  qed
qed

lemma get_entry_invariant:
  assumes "get_entry self now key = Inr (r, self')" and "distinct (map fst (cache self))"
  shows "distinct (map fst (cache self'))" and "length (cache self') \<le> length (cache self)"
proof -
  have len: "Suc (length (filter (\<lambda>e. fst e \<noteq> key) (cache self))) \<le> length (cache self)"
    if "map_of (cache self) key = Some item" for item
  proof -
    from that have "(key, item) \<in> set (cache self)" by (rule map_of_SomeD)
    then have "length (filter (\<lambda>e. fst e \<noteq> key) (cache self)) < length (cache self)"
      by (intro length_filter_less [of "(key, item)"]) auto
    then show ?thesis by simp
  qed
  from assms show "distinct (map fst (cache self'))"
    by (auto simp: get_entry_eq distinct_map_filter split: option.splits if_splits)
  show "length (cache self') \<le> length (cache self)"
  proof (cases "map_of (cache self) key")
    case None
    with assms(1) show ?thesis by (simp add: get_entry_eq)
  next
    case (Some item)
    from len [OF Some] Some assms(1) show ?thesis
      by (auto simp: get_entry_eq split: if_splits)
  qed
qed

section \<open>Storing a response\<close>

text \<open>
  C5. For every cache, \<open>set\<close> with the key computed never raises; it takes any entry of
  the key out, puts the response with the reading of the clock at the end of the order,
  the most recently used place, and then, when the entries are more than \<open>max_size\<close>,
  drops the first one, the least recently used. With \<open>max_size = 2\<close>, setting \<open>A\<close>, \<open>B\<close>
  and \<open>C\<close> leaves \<open>B\<close> and \<open>C\<close>; a following get of \<open>B\<close> and set of \<open>D\<close> leave exactly
  \<open>B\<close> and \<open>D\<close>.
\<close>

theorem set_entry_lru:
  "set_entry self now key resp =
     Inr (self\<lparr>cache :=
            (let d = filter (\<lambda>e. fst e \<noteq> key) (cache self) @
                     [(key, \<lparr>response = resp, timestamp = now\<rparr>)]
             in if int (length d) > max_size self then tl d else d)\<rparr>)
   \<and> run_cache_calls small_cache [(1, Set ''A'' ''a''), (2, Set ''B'' ''b''), (3, Set ''C'' ''c'')] =
       Inr (small_cache\<lparr>cache := [(''B'', \<lparr>response = ''b'', timestamp = 2\<rparr>),
                                   (''C'', \<lparr>response = ''c'', timestamp = 3\<rparr>)]\<rparr>)
   \<and> run_cache_calls small_cache
         [(1, Set ''A'' ''a''), (2, Set ''B'' ''b''), (3, Set ''C'' ''c''), (4, Get ''B''),
          (5, Set ''D'' ''d'')] =
       Inr (small_cache\<lparr>cache := [(''B'', \<lparr>response = ''b'', timestamp = 2\<rparr>),
                                   (''D'', \<lparr>response = ''d'', timestamp = 5\<rparr>)]\<rparr>)"
proof (intro conjI)
  show "set_entry self now key resp =
     Inr (self\<lparr>cache :=
            (let d = filter (\<lambda>e. fst e \<noteq> key) (cache self) @
                     [(key, \<lparr>response = resp, timestamp = now\<rparr>)]
             in if int (length d) > max_size self then tl d else d)\<rparr>)"
    by (rule set_entry_eq)
next
  show "run_cache_calls small_cache [(1, Set ''A'' ''a''), (2, Set ''B'' ''b''), (3, Set ''C'' ''c'')] =
       Inr (small_cache\<lparr>cache := [(''B'', \<lparr>response = ''b'', timestamp = 2\<rparr>),
                                   (''C'', \<lparr>response = ''c'', timestamp = 3\<rparr>)]\<rparr>)"
    by (simp add: set_entry_eq small_cache_def ResponseCache_init_def Let_def)
next
  show "run_cache_calls small_cache
         [(1, Set ''A'' ''a''), (2, Set ''B'' ''b''), (3, Set ''C'' ''c''), (4, Get ''B''),
          (5, Set ''D'' ''d'')] =
       Inr (small_cache\<lparr>cache := [(''B'', \<lparr>response = ''b'', timestamp = 2\<rparr>),
                                   (''D'', \<lparr>response = ''d'', timestamp = 5\<rparr>)]\<rparr>)"
    by (simp add: set_entry_eq get_entry_eq small_cache_def ResponseCache_init_def Let_def)
qed

section \<open>Looking a response up\<close>

lemma r_cache_set: "set_entry small_cache 10 ''k'' ''R'' = Inr r_cache"
  by (simp add: set_entry_eq r_cache_def small_cache_def ResponseCache_init_def Let_def)

text \<open>
  C6. \<open>get\<close> with the key computed has three outcomes and never raises. An entry that
  is present with \<open>now - timestamp < ttl\<close> is a hit: its response is returned and the
  entry moves to the end of the order. An entry that is present with
  \<open>now - timestamp \<ge> ttl\<close> is removed and the result is a miss, the key being absent
  afterwards. An absent key is a miss and the cache is unchanged.
\<close>

theorem get_entry_outcomes:
  "(map_of (cache self) key = Some item \<and> now - cached_item.timestamp item < ttl self \<longrightarrow>
      get_entry self now key =
        Inr (Some (response item),
             self\<lparr>cache := filter (\<lambda>e. fst e \<noteq> key) (cache self) @ [(key, item)]\<rparr>))
   \<and> (map_of (cache self) key = Some item \<and> \<not> now - cached_item.timestamp item < ttl self \<longrightarrow>
        get_entry self now key =
          Inr (None, self\<lparr>cache := filter (\<lambda>e. fst e \<noteq> key) (cache self)\<rparr>) \<and>
        map_of (filter (\<lambda>e. fst e \<noteq> key) (cache self)) key = None)
   \<and> (map_of (cache self) key = None \<longrightarrow> get_entry self now key = Inr (None, self))
   \<and> (\<exists>r self'. get_entry self now key = Inr (r, self'))"
  by (auto simp: get_entry_eq map_of_filter_same split: option.splits)

theorem get_entry_outcomes_witness:
  "set_entry small_cache 10 ''k'' ''R'' = Inr r_cache
   \<and> get_entry r_cache 10 ''k'' = Inr (Some ''R'', r_cache)
   \<and> get_entry r_cache 3609 ''k'' = Inr (Some ''R'', r_cache)
   \<and> get_entry r_cache 3610 ''k'' = Inr (None, small_cache)
   \<and> get_entry small_cache 3611 ''k'' = Inr (None, small_cache)"
proof -
  let ?item = "\<lparr>response = ''R'', timestamp = 10\<rparr>"
  have p: "map_of (cache r_cache) ''k'' = Some ?item" "ttl r_cache = 3600"
    "cache r_cache = [(''k'', ?item)]"
    by (simp_all add: r_cache_def small_cache_def ResponseCache_init_def)
  have e: "map_of (cache small_cache) ''k'' = None"
    by (simp add: small_cache_def ResponseCache_init_def)
  have same: "r_cache\<lparr>cache := [(''k'', ?item)]\<rparr> = r_cache" "r_cache\<lparr>cache := []\<rparr> = small_cache"
    by (simp_all add: r_cache_def small_cache_def ResponseCache_init_def)
  have a: "get_entry r_cache 10 ''k'' = Inr (Some ''R'', r_cache)"
    using get_entry_outcomes [of r_cache "''k''" ?item 10] p same by simp
  have b: "get_entry r_cache 3609 ''k'' = Inr (Some ''R'', r_cache)"
    using get_entry_outcomes [of r_cache "''k''" ?item 3609] p same by simp
  have c: "get_entry r_cache 3610 ''k'' = Inr (None, small_cache)"
    using get_entry_outcomes [of r_cache "''k''" ?item 3610] p same by simp
  have d: "get_entry small_cache 3611 ''k'' = Inr (None, small_cache)"
    using get_entry_outcomes [of small_cache "''k''" ?item 3611] e by simp
  from r_cache_set a b c d show ?thesis by simp
qed


section \<open>Hits and the time to live\<close>

text \<open>
  C9. A hit returns the response and leaves the entry, with the timestamp it was stored
  with, at the end of the order. After any sequence of gets, on whatever keys and at
  whatever readings, the entry of a key is absent or is the entry as it was, and the
  time to live is as it was; so a get at a reading at which the entry has expired
  misses, however many hits came before. After a set at \<open>t0\<close> and any gets the entry,
  if present, carries \<open>t0\<close>.
\<close>

theorem get_keeps_timestamp:
  "(map_of (cache self) key = Some item \<and> now - cached_item.timestamp item < ttl self \<longrightarrow>
      (\<exists>self'. get_entry self now key = Inr (Some (response item), self') \<and>
         map_of (cache self') key = Some item \<and> last (cache self') = (key, item)))
   \<and> (\<exists>self'. get_all self gets = Inr self' \<and> ttl self' = ttl self \<and>
         (map_of (cache self') key = None \<or> map_of (cache self') key = map_of (cache self) key))
   \<and> (map_of (cache self) key = Some item \<and> \<not> later - cached_item.timestamp item < ttl self \<longrightarrow>
        (\<exists>self' self''. get_all self gets = Inr self' \<and>
           get_entry self' later key = Inr (None, self'')))
   \<and> (\<exists>self1 self'. set_entry self t0 key resp = Inr self1 \<and> get_all self1 gets = Inr self' \<and>
         (map_of (cache self') key = None \<or>
          map_of (cache self') key = Some \<lparr>response = resp, timestamp = t0\<rparr>))"
proof (intro conjI impI)
  assume "map_of (cache self) key = Some item \<and> now - cached_item.timestamp item < ttl self"
  then show "\<exists>self'. get_entry self now key = Inr (Some (response item), self') \<and>
         map_of (cache self') key = Some item \<and> last (cache self') = (key, item)"
    by (simp add: get_entry_eq map_of_filter_same map_add_def)
next
  from get_all_keeps [of self gets]
  show "\<exists>self'. get_all self gets = Inr self' \<and> ttl self' = ttl self \<and>
         (map_of (cache self') key = None \<or> map_of (cache self') key = map_of (cache self) key)"
    by blast
next
  assume a: "map_of (cache self) key = Some item \<and> \<not> later - cached_item.timestamp item < ttl self"
  from get_all_keeps [of self gets] obtain s where s: "get_all self gets = Inr s" "ttl s = ttl self"
    "map_of (cache s) key = None \<or> map_of (cache s) key = map_of (cache self) key"
    by blast
  from s(2,3) a have "\<exists>s'. get_entry s later key = Inr (None, s')"
    by (auto simp: get_entry_eq)
  with s(1) show "\<exists>self' self''. get_all self gets = Inr self' \<and>
           get_entry self' later key = Inr (None, self'')"
    by blast
next
  let ?d = "filter (\<lambda>e. fst e \<noteq> key) (cache self) @ [(key, \<lparr>response = resp, timestamp = t0\<rparr>)]"
  let ?s1 = "self\<lparr>cache := (if int (length ?d) > max_size self then tl ?d else ?d)\<rparr>"
  have s1: "set_entry self t0 key resp = Inr ?s1"
    by (simp add: set_entry_eq Let_def)
  have full: "map_of ?d key = Some \<lparr>response = resp, timestamp = t0\<rparr>"
    by (simp add: map_of_filter_same map_add_def)
  have tl_lookup: "map_of (tl d) k = None \<or> map_of (tl d) k = map_of d k
      \<or> (\<exists>v. hd d = (k, v))" for d :: "(string \<times> cached_item) list" and k
    by (cases d) auto
  have l1: "map_of (cache ?s1) key = None \<or>
        map_of (cache ?s1) key = Some \<lparr>response = resp, timestamp = t0\<rparr>"
  proof (cases "int (length ?d) > max_size self")
    case False
    with full show ?thesis by simp
  next
    case True
    show ?thesis
    proof (cases "filter (\<lambda>e. fst e \<noteq> key) (cache self)")
      case Nil
      with True show ?thesis by simp
    next
      case (Cons e es)
      then have "fst e \<noteq> key"
        by (metis (mono_tags, lifting) filter_eq_ConsD)
      with Cons True full show ?thesis by (cases e) (auto simp: map_add_def split: option.splits)
    qed
  qed
  from get_all_keeps [of ?s1 gets] obtain s where s: "get_all ?s1 gets = Inr s"
    "map_of (cache s) key = None \<or> map_of (cache s) key = map_of (cache ?s1) key"
    by blast
  from s(2) l1 have "map_of (cache s) key = None \<or>
          map_of (cache s) key = Some \<lparr>response = resp, timestamp = t0\<rparr>"
    by metis
  with s1 s(1) show "\<exists>self1 self'. set_entry self t0 key resp = Inr self1 \<and> get_all self1 gets = Inr self' \<and>
         (map_of (cache self') key = None \<or>
          map_of (cache self') key = Some \<lparr>response = resp, timestamp = t0\<rparr>)"
    by blast
qed

theorem get_keeps_timestamp_witness:
  "get_entry r_cache 3000 ''k'' = Inr (Some ''R'', r_cache)
   \<and> (\<exists>self' self''. get_all r_cache [(1000, ''k''), (2000, ''k''), (3000, ''k''), (3500, ''x'')] = Inr self' \<and>
          get_entry self' 3610 ''k'' = Inr (None, self''))"
proof -
  let ?item = "\<lparr>response = ''R'', timestamp = 10\<rparr>"
  have p: "map_of (cache r_cache) ''k'' = Some ?item" "ttl r_cache = 3600"
    by (simp_all add: r_cache_def small_cache_def ResponseCache_init_def)
  have a: "get_entry r_cache 3000 ''k'' = Inr (Some ''R'', r_cache)"
    by (simp add: get_entry_eq p) (simp add: r_cache_def)
  from get_keeps_timestamp [of r_cache "''k''" ?item 3000
      "[(1000, ''k''), (2000, ''k''), (3000, ''k''), (3500, ''x'')]" 3610 0 "''R''"] p a
  show ?thesis by simp
qed

section \<open>The key of a request\<close>

text \<open>
  C7. The claim: two requests that differ in a field have different keys, but for the
  collisions of the digest. The key is the digest of the fields joined with colons, and
  the prompt and the model may contain colons: the prompt \<open>a:b\<close> with the model \<open>c\<close>, and
  the prompt \<open>a\<close> with the model \<open>b:c\<close>, are joined to the same text and have the same
  key, whatever the digest and the format of the temperature.
\<close>

theorem generate_key_delimiter_collision:
  "generate_key lib ''a:b'' ''c'' 80 t = generate_key lib ''a'' ''b:c'' 80 t
   \<and> (''a:b'', ''c'') \<noteq> (''a'', ''b:c'')"
  by (simp add: generate_key_def key_data_def)

end
